theory Spec2Isabelle
  imports Main
begin

section \<open>Python values, strings and exceptions\<close>

text \<open>
  The three scripts handle Python strings, the values of a JSON object and the entries of a
  report dictionary. A \<open>string\<close> is a sequence of characters with code points below 256, one
  \<open>char\<close> per code point, so \<open>length\<close> is Python's \<open>len\<close> on such strings. The emoji of the
  scripts' fixed messages lie outside that range; each is a named constant holding its UTF-8
  bytes, and no statement below depends on their lengths.

  \<open>PObj s\<close> stands for any other Python object (a float, a list, a nested dictionary), given by
  its \<open>str()\<close> rendering \<open>s\<close>, which is all the scripts ever use of such a value.
\<close>

datatype pyval = PNone | PBool bool | PInt int | PStr string | PObj string

datatype error =
    KeyError string
  | ValueError
  | TypeError
  | AttributeError
  | JSONDecodeError
  | FileNotFoundError
  | IsADirectoryError
  | EOFError

fun dec_nat :: "nat \<Rightarrow> string" where
  "dec_nat n =
     (if n < 10 then [char_of (48 + n)]
      else dec_nat (n div 10) @ [char_of (48 + n mod 10)])"

declare dec_nat.simps [simp del]

text \<open>\<open>str(v)\<close>, which is also what an f-string field \<open>{v}\<close> inserts.\<close>

fun py_str :: "pyval \<Rightarrow> string" where
  "py_str PNone = ''None''"
| "py_str (PBool b) = (if b then ''True'' else ''False'')"
| "py_str (PInt i) = (if i < 0 then CHR ''-'' # dec_nat (nat (- i)) else dec_nat (nat i))"
| "py_str (PStr s) = s"
| "py_str (PObj s) = s"

text \<open>Truth value of an optional string argument: \<open>None\<close> and \<open>""\<close> are false.\<close>

fun truthy :: "string option \<Rightarrow> bool" where
  "truthy None = False"
| "truthy (Some s) = (s \<noteq> [])"

text \<open>\<open>str.isspace\<close> on code points below 256, the characters \<open>str.strip()\<close> removes.\<close>

definition isspace :: "char \<Rightarrow> bool" where
  "isspace c = ((of_char c :: nat) \<in> {9, 10, 11, 12, 13, 28, 29, 30, 31, 32, 133, 160})"

definition strip :: "string \<Rightarrow> string" where
  "strip s = rev (dropWhile isspace (rev (dropWhile isspace s)))"

text \<open>\<open>str.lower\<close> on code points below 256: A-Z, and the Latin-1 capitals but the
  multiplication sign.\<close>

definition lower_char :: "char \<Rightarrow> char" where
  "lower_char c =
     (let n = (of_char c :: nat)
      in if (65 \<le> n \<and> n \<le> 90) \<or> (192 \<le> n \<and> n \<le> 222 \<and> n \<noteq> 215)
         then char_of (n + 32) else c)"

definition lower :: "string \<Rightarrow> string" where
  "lower s = map lower_char s"

text \<open>\<open>sub in s\<close> for strings: \<open>sub\<close> occurs in \<open>s\<close> as a contiguous run.\<close>

fun str_in :: "string \<Rightarrow> string \<Rightarrow> bool" where
  "str_in sub [] = (sub = [])"
| "str_in sub (c # cs) = (take (length sub) (c # cs) = sub \<or> str_in sub cs)"

text \<open>\<open>os.path.basename\<close>: what follows the last slash.\<close>

definition basename :: "string \<Rightarrow> string" where
  "basename p = rev (takeWhile (\<lambda>c. c \<noteq> CHR ''/'') (rev p))"

text \<open>\<open>str(KeyError(k))\<close> is the \<open>repr\<close> of the key; the keys looked up are fixed identifiers.\<close>

definition key_error_str :: "string \<Rightarrow> string" where
  "key_error_str k = CHR 0x27 # k @ [CHR 0x27]"

subsection \<open>Integer literals\<close>

text \<open>
  \<open>int(s)\<close> in base 10: surrounding whitespace is dropped, then an optional sign and a run of
  digits in which single underscores may stand between two digits. Anything else raises
  \<open>ValueError\<close>. (Below code point 256 the decimal digits are 0-9 only. The bound that
  recent interpreters put on the number of digits of a literal is left out; it only turns
  some very long numerals into a \<open>ValueError\<close> as well.)
\<close>

definition is_digit :: "char \<Rightarrow> bool" where
  "is_digit c = (48 \<le> (of_char c :: nat) \<and> (of_char c :: nat) \<le> 57)"

definition digit_val :: "char \<Rightarrow> nat" where
  "digit_val c = of_char c - 48"

fun int_digits :: "nat \<Rightarrow> string \<Rightarrow> nat option" where
  "int_digits acc [] = Some acc"
| "int_digits acc (c # cs) =
     (if is_digit c then int_digits (10 * acc + digit_val c) cs
      else if c = CHR ''_'' then
        (case cs of
           [] \<Rightarrow> None
         | d # ds \<Rightarrow> if is_digit d then int_digits (10 * acc + digit_val d) ds else None)
      else None)"

definition int_unsigned :: "string \<Rightarrow> nat option" where
  "int_unsigned s =
     (case s of
        [] \<Rightarrow> None
      | c # cs \<Rightarrow> if is_digit c then int_digits (digit_val c) cs else None)"

definition py_int :: "string \<Rightarrow> error + int" where
  "py_int s =
     (let t = strip s;
          (neg, body) = (case t of
                           c # cs \<Rightarrow> if c = CHR ''-'' then (True, cs)
                                     else if c = CHR ''+'' then (False, cs)
                                     else (False, t)
                         | [] \<Rightarrow> (False, t))
      in case int_unsigned body of
           None \<Rightarrow> Inl ValueError
         | Some n \<Rightarrow> Inr (if neg then - int n else int n))"

subsection \<open>The clock\<close>

record datetime =
  year :: nat
  month :: nat
  day :: nat
  hour :: nat
  minute :: nat
  second :: nat

definition zero_pad :: "nat \<Rightarrow> string \<Rightarrow> string" where
  "zero_pad w s = replicate (w - length s) CHR ''0'' @ s"

text \<open>\<open>dt.strftime("%Y-%m-%d %H:%M:%S")\<close>, for the years of four digits and more that
  \<open>datetime.now()\<close> gives.\<close>

definition strftime :: "datetime \<Rightarrow> string" where
  "strftime dt =
     zero_pad 4 (dec_nat (year dt)) @ ''-'' @ zero_pad 2 (dec_nat (month dt)) @ ''-''
     @ zero_pad 2 (dec_nat (day dt)) @ '' '' @ zero_pad 2 (dec_nat (hour dt)) @ '':''
     @ zero_pad 2 (dec_nat (minute dt)) @ '':'' @ zero_pad 2 (dec_nat (second dt))"

section \<open>Files, console and the SMTP relay\<close>

text \<open>
  \<open>json.load\<close> and \<open>json.dump\<close> belong to the Python library. A file is therefore kept by what
  it holds: \<open>Json d\<close> is a file whose text is a JSON document that \<open>json.load\<close> reads as \<open>d\<close>
  (and \<open>json.dump\<close> of \<open>d\<close> produces such a file), \<open>Raw s\<close> is a file with bytes \<open>s\<close> that are
  not JSON. A document is an object (a dictionary in iteration order) or something else.
  Each file has its permission bits; the scripts run as a process that may read and create the
  files it names.
\<close>

type_synonym config = "(string \<times> pyval) list"

datatype json_doc = JObject config | JOther

datatype file_data = Json json_doc | Raw string

datatype node = File file_data int | Dir

datatype part =
    MIMEText string string
  | MIMEBase string string file_data string

record message =
  subtype :: string
  hdr_from :: pyval
  hdr_to :: pyval
  hdr_subject :: string
  parts :: "part list"

text \<open>The calls made on the SMTP connection, in order.\<close>

datatype smtp_call =
    Connect pyval pyval
  | StartTLS
  | Login pyval pyval
  | SendMail pyval pyval message
  | Quit

text \<open>
  The relay and the TLS library are outside the repository: \<open>smtp\<close> says, for each step of a
  session, whether it raises (\<open>Some\<close> of the exception's \<open>str()\<close>) or succeeds (\<open>None\<close>).
  \<open>do_sendmail\<close> covers \<open>message.as_string()\<close> and the submission, \<open>do_quit\<close> the \<open>QUIT\<close> that
  leaving the \<open>with\<close> block sends.
\<close>

record smtp =
  ssl_context :: "string option"
  do_connect :: "pyval \<Rightarrow> pyval \<Rightarrow> string option"
  do_starttls :: "string option"
  do_login :: "pyval \<Rightarrow> pyval \<Rightarrow> string option"
  do_sendmail :: "pyval \<Rightarrow> pyval \<Rightarrow> message \<Rightarrow> string option"
  do_quit :: "string option"

record world =
  files :: "string \<Rightarrow> node option"
  umask :: int
  stdin :: "string list"
  stdout :: "string list"
  wire :: "smtp_call list"

type_synonym 'a io = "world \<Rightarrow> (error + 'a) \<times> world"

definition io_return :: "'a \<Rightarrow> 'a io" where
  "io_return x w = (Inr x, w)"

definition io_raise :: "error \<Rightarrow> 'a io" where
  "io_raise e w = (Inl e, w)"

definition io_bind :: "'a io \<Rightarrow> ('a \<Rightarrow> 'b io) \<Rightarrow> 'b io" where
  "io_bind m f w = (case m w of (Inl e, w') \<Rightarrow> (Inl e, w') | (Inr x, w') \<Rightarrow> f x w')"

definition io_then :: "unit io \<Rightarrow> 'b io \<Rightarrow> 'b io" where
  "io_then m k = io_bind m (\<lambda>_. k)"

definition py_print :: "string \<Rightarrow> unit io" where
  "py_print s w = (Inr (), w\<lparr>stdout := stdout w @ [s]\<rparr>)"

fun print_all :: "string list \<Rightarrow> unit io" where
  "print_all [] = io_return ()"
| "print_all (s # ss) = io_then (py_print s) (print_all ss)"

text \<open>\<open>input(prompt)\<close>: the prompt goes to the console, a line is taken from the input.\<close>

definition py_input :: "string \<Rightarrow> string io" where
  "py_input prompt w =
     (case stdin w of
        [] \<Rightarrow> (Inl EOFError, w\<lparr>stdout := stdout w @ [prompt]\<rparr>)
      | l # ls \<Rightarrow> (Inr l, w\<lparr>stdout := stdout w @ [prompt], stdin := ls\<rparr>))"

text \<open>\<open>getpass.getpass\<close> prompts on the terminal device, not on standard output.\<close>

definition getpass :: "string \<Rightarrow> string io" where
  "getpass prompt w =
     (case stdin w of
        [] \<Rightarrow> (Inl EOFError, w)
      | l # ls \<Rightarrow> (Inr l, w\<lparr>stdin := ls\<rparr>))"

definition path_exists :: "world \<Rightarrow> string \<Rightarrow> bool" where
  "path_exists w p = (files w p \<noteq> None)"

text \<open>\<open>open(p, 'r')\<close> or \<open>open(p, 'rb')\<close> followed by reading the whole file.\<close>

definition read_file :: "string \<Rightarrow> file_data io" where
  "read_file p w =
     (case files w p of
        None \<Rightarrow> (Inl FileNotFoundError, w)
      | Some Dir \<Rightarrow> (Inl IsADirectoryError, w)
      | Some (File d m) \<Rightarrow> (Inr d, w))"

definition json_load :: "string \<Rightarrow> json_doc io" where
  "json_load p =
     io_bind (read_file p)
       (\<lambda>d. case d of Json doc \<Rightarrow> io_return doc | Raw s \<Rightarrow> io_raise JSONDecodeError)"

text \<open>
  \<open>with open(p, 'w') as f: json.dump(cfg, f, indent=4)\<close>. An existing file is truncated and
  keeps its mode; a new file gets \<open>0o666 & ~umask\<close>.
\<close>

definition json_dump :: "string \<Rightarrow> config \<Rightarrow> unit io" where
  "json_dump p cfg w =
     (case files w p of
        Some Dir \<Rightarrow> (Inl IsADirectoryError, w)
      | Some (File d m) \<Rightarrow> (Inr (), w\<lparr>files := (files w)(p \<mapsto> File (Json (JObject cfg)) m)\<rparr>)
      | None \<Rightarrow>
          (Inr (), w\<lparr>files := (files w)(p \<mapsto> File (Json (JObject cfg)) (and 438 (not (umask w))))\<rparr>))"

text \<open>\<open>os.chmod(p, mode)\<close>; the modes of directories are not tracked.\<close>

definition chmod :: "string \<Rightarrow> int \<Rightarrow> unit io" where
  "chmod p mode w =
     (case files w p of
        None \<Rightarrow> (Inl FileNotFoundError, w)
      | Some Dir \<Rightarrow> (Inr (), w)
      | Some (File d m) \<Rightarrow> (Inr (), w\<lparr>files := (files w)(p \<mapsto> File d mode)\<rparr>))"

text \<open>\<open>config[key]\<close> and \<open>config.get(key)\<close> on what \<open>json.load\<close> returned.\<close>

definition subscript :: "json_doc \<Rightarrow> string \<Rightarrow> error + pyval" where
  "subscript config k =
     (case config of
        JOther \<Rightarrow> Inl TypeError
      | JObject c \<Rightarrow> (case map_of c k of None \<Rightarrow> Inl (KeyError k) | Some v \<Rightarrow> Inr v))"

definition dict_get :: "json_doc \<Rightarrow> string \<Rightarrow> error + pyval" where
  "dict_get config k =
     (case config of
        JOther \<Rightarrow> Inl AttributeError
      | JObject c \<Rightarrow> (case map_of c k of None \<Rightarrow> Inr PNone | Some v \<Rightarrow> Inr v))"

subsection \<open>Emoji of the fixed messages\<close>

definition emoji_check :: string where
  "emoji_check = [CHR 0xE2, CHR 0x9C, CHR 0x85]"

definition emoji_cross :: string where
  "emoji_cross = [CHR 0xE2, CHR 0x9D, CHR 0x8C]"

definition emoji_party :: string where
  "emoji_party = [CHR 0xF0, CHR 0x9F, CHR 0x8E, CHR 0x89]"

definition emoji_confetti :: string where
  "emoji_confetti = [CHR 0xF0, CHR 0x9F, CHR 0x8E, CHR 0x8A]"

definition emoji_email :: string where
  "emoji_email = [CHR 0xF0, CHR 0x9F, CHR 0x93, CHR 0xA7]"

definition emoji_bell :: string where
  "emoji_bell = [CHR 0xF0, CHR 0x9F, CHR 0x94, CHR 0x94]"

definition emoji_siren :: string where
  "emoji_siren = [CHR 0xF0, CHR 0x9F, CHR 0x9A, CHR 0xA8]"

definition emoji_warning :: string where
  "emoji_warning = [CHR 0xE2, CHR 0x9A, CHR 0xA0, CHR 0xEF, CHR 0xB8, CHR 0x8F]"

definition emoji_folder :: string where
  "emoji_folder = [CHR 0xF0, CHR 0x9F, CHR 0x93, CHR 0x81]"

definition emoji_memo :: string where
  "emoji_memo = [CHR 0xF0, CHR 0x9F, CHR 0x93, CHR 0x9D]"

definition emoji_wrench :: string where
  "emoji_wrench = [CHR 0xF0, CHR 0x9F, CHR 0x94, CHR 0xA7]"

definition emoji_rocket :: string where
  "emoji_rocket = [CHR 0xF0, CHR 0x9F, CHR 0x9A, CHR 0x80]"

definition emoji_outbox :: string where
  "emoji_outbox = [CHR 0xF0, CHR 0x9F, CHR 0x93, CHR 0xA4]"

definition emoji_lock :: string where
  "emoji_lock = [CHR 0xF0, CHR 0x9F, CHR 0x94, CHR 0x90]"

section \<open>The mail sender (send_email.py)\<close>

definition io_lift :: "error + 'a \<Rightarrow> 'a io" where
  "io_lift r = (case r of Inl e \<Rightarrow> io_raise e | Inr x \<Rightarrow> io_return x)"

definition default_config :: config where
  "default_config =
     [(''smtp_server'', PStr ''smtp.gmail.com''),
      (''smtp_port'', PInt 587),
      (''sender_email'', PStr ''your_email@gmail.com''),
      (''sender_password'', PStr ''your_app_password''),
      (''default_recipient'', PStr ''your_email@gmail.com'')]"

text \<open>\<open>TrinityEmailSender.load_config\<close>, which the constructor runs.\<close>

definition load_config :: "string \<Rightarrow> json_doc io" where
  "load_config config_file w =
     (if path_exists w config_file then json_load config_file w
      else
        io_then (json_dump config_file default_config)
          (io_then (py_print (''Created default config file: '' @ config_file))
            (io_then (py_print ''Please edit it with your email settings!'')
              (io_return (JObject default_config)))) w)"

text \<open>Lines 47-49: \<open>if not to_email: to_email = self.config.get("default_recipient")\<close>.\<close>

definition recipient :: "json_doc \<Rightarrow> string option \<Rightarrow> error + pyval" where
  "recipient config to_email =
     (case to_email of
        None \<Rightarrow> dict_get config ''default_recipient''
      | Some s \<Rightarrow> if truthy (Some s) then Inr (PStr s) else dict_get config ''default_recipient'')"

text \<open>Lines 57-59: the body with the send time appended.\<close>

definition body_with_timestamp :: "datetime \<Rightarrow> string \<Rightarrow> string" where
  "body_with_timestamp now body = body @ ''\<newline>\<newline>Sent from Trinity at '' @ strftime now"

text \<open>Lines 65-68: the HTML part, if an HTML body is given.\<close>

definition html_parts :: "string option \<Rightarrow> part list" where
  "html_parts html_body =
     (case html_body of
        None \<Rightarrow> []
      | Some h \<Rightarrow> if truthy (Some h) then [MIMEText h ''html''] else [])"

text \<open>Lines 70-81: the attachment, if a path is given and exists.\<close>

definition attachment_parts :: "string option \<Rightarrow> part list io" where
  "attachment_parts attachment_path w =
     (case attachment_path of
        None \<Rightarrow> (Inr [], w)
      | Some p \<Rightarrow>
          if truthy (Some p) \<and> path_exists w p then
            io_bind (read_file p)
              (\<lambda>d. io_return
                 [MIMEBase ''application'' ''octet-stream'' d
                    (''attachment; filename= '' @ basename p)]) w
          else (Inr [], w))"

text \<open>Lines 47-81: everything \<open>send_email\<close> does before its \<open>try\<close> block.\<close>

definition build_message ::
  "datetime \<Rightarrow> json_doc \<Rightarrow> string option \<Rightarrow> string \<Rightarrow> string \<Rightarrow> string option
     \<Rightarrow> string option \<Rightarrow> (pyval \<times> message) io" where
  "build_message now config to_email subject body attachment_path html_body =
     io_bind (io_lift (recipient config to_email)) (\<lambda>rcpt.
     io_bind (io_lift (subscript config ''sender_email'')) (\<lambda>sender.
     io_bind (attachment_parts attachment_path) (\<lambda>att.
     io_return
       (rcpt,
        \<lparr>subtype = ''alternative'', hdr_from = sender, hdr_to = rcpt, hdr_subject = subject,
         parts = [MIMEText (body_with_timestamp now body) ''plain'']
                 @ html_parts html_body @ att\<rparr>))))"

text \<open>
  Lines 87-89, the body of the \<open>with\<close> block: the exception text if a step raised, and the
  calls made. \<open>c\<close> is the configuration dictionary.
\<close>

definition smtp_steps ::
  "smtp \<Rightarrow> config \<Rightarrow> pyval \<Rightarrow> message \<Rightarrow> string option \<times> smtp_call list" where
  "smtp_steps srv c rcpt m =
     (case do_starttls srv of
        Some e \<Rightarrow> (Some e, [StartTLS])
      | None \<Rightarrow>
     (case map_of c ''sender_email'' of
        None \<Rightarrow> (Some (key_error_str ''sender_email''), [StartTLS])
      | Some user \<Rightarrow>
     (case map_of c ''sender_password'' of
        None \<Rightarrow> (Some (key_error_str ''sender_password''), [StartTLS])
      | Some pw \<Rightarrow>
     (case do_login srv user pw of
        Some e \<Rightarrow> (Some e, [StartTLS, Login user pw])
      | None \<Rightarrow>
          (do_sendmail srv user rcpt m, [StartTLS, Login user pw, SendMail user rcpt m])))))"

text \<open>Lines 85-89: the TLS context, the connection, the block and the \<open>QUIT\<close> on leaving it.\<close>

definition smtp_session ::
  "smtp \<Rightarrow> config \<Rightarrow> pyval \<Rightarrow> message \<Rightarrow> string option \<times> smtp_call list" where
  "smtp_session srv c rcpt m =
     (case ssl_context srv of
        Some e \<Rightarrow> (Some e, [])
      | None \<Rightarrow>
     (case map_of c ''smtp_server'' of
        None \<Rightarrow> (Some (key_error_str ''smtp_server''), [])
      | Some host \<Rightarrow>
     (case map_of c ''smtp_port'' of
        None \<Rightarrow> (Some (key_error_str ''smtp_port''), [])
      | Some port \<Rightarrow>
     (case do_connect srv host port of
        Some e \<Rightarrow> (Some e, [Connect host port])
      | None \<Rightarrow>
          (case do_quit srv of
             Some e \<Rightarrow> (Some e, Connect host port # snd (smtp_steps srv c rcpt m) @ [Quit])
           | None \<Rightarrow>
               (fst (smtp_steps srv c rcpt m),
                Connect host port # snd (smtp_steps srv c rcpt m) @ [Quit]))))))"

definition transmit :: "smtp_call list \<Rightarrow> unit io" where
  "transmit calls w = (Inr (), w\<lparr>wire := wire w @ calls\<rparr>)"

text \<open>\<open>TrinityEmailSender.send_email\<close>; \<open>config\<close> is \<open>self.config\<close>.\<close>

definition send_email ::
  "smtp \<Rightarrow> datetime \<Rightarrow> json_doc \<Rightarrow> string option \<Rightarrow> string \<Rightarrow> string \<Rightarrow> string option
     \<Rightarrow> string option \<Rightarrow> bool io" where
  "send_email srv now config to_email subject body attachment_path html_body =
     io_bind (build_message now config to_email subject body attachment_path html_body)
       (\<lambda>(rcpt, m).
          case config of
            JOther \<Rightarrow> io_raise TypeError
          | JObject c \<Rightarrow>
              io_then (transmit (snd (smtp_session srv c rcpt m)))
                (case fst (smtp_session srv c rcpt m) of
                   None \<Rightarrow>
                     io_then
                       (py_print (emoji_check @ '' Email sent successfully to '' @ py_str rcpt))
                       (io_return True)
                 | Some e \<Rightarrow>
                     io_then (py_print (emoji_cross @ '' Error sending email: '' @ e))
                       (io_return False)))"

definition subjects :: "(string \<times> string) list" where
  "subjects =
     [(''low'', emoji_bell @ '' Trinity Notification''),
      (''normal'', emoji_email @ '' Trinity Alert''),
      (''high'', emoji_siren @ '' Trinity Important Alert'')]"

text \<open>\<open>TrinityEmailSender.send_notification\<close>\<close>

definition send_notification ::
  "smtp \<Rightarrow> datetime \<Rightarrow> json_doc \<Rightarrow> string \<Rightarrow> string \<Rightarrow> bool io" where
  "send_notification srv now config msg priority =
     (case map_of subjects ''normal'' of
        None \<Rightarrow> io_raise (KeyError ''normal'')
      | Some dflt \<Rightarrow>
          send_email srv now config None
            (case map_of subjects priority of None \<Rightarrow> dflt | Some s \<Rightarrow> s)
            msg None None)"

text \<open>The report: a dictionary, as its items in iteration order, or any other value.\<close>

datatype report_data = RDict "(pyval \<times> pyval) list" | ROther pyval

definition html_head :: "datetime \<Rightarrow> string \<Rightarrow> string" where
  "html_head now report_type =
     ''\<newline>        <html>\<newline>        <body>\<newline>        <h2>Trinity '' @ report_type
     @ ''</h2>\<newline>        <p><strong>Generated:</strong> '' @ strftime now
     @ ''</p>\<newline>        <hr>\<newline>        ''"

definition html_foot :: string where
  "html_foot =
     ''\<newline>        <hr>\<newline>        <p><em>Sent automatically by Trinity</em></p>''
     @ ''\<newline>        </body>\<newline>        </html>\<newline>        ''"

definition html_entry :: "pyval \<times> pyval \<Rightarrow> string" where
  "html_entry kv = ''<p><strong>'' @ py_str (fst kv) @ '':</strong> '' @ py_str (snd kv) @ ''</p>''"

definition text_entry :: "pyval \<times> pyval \<Rightarrow> string" where
  "text_entry kv = py_str (fst kv) @ '': '' @ py_str (snd kv) @ ''\<newline>''"

definition text_head :: "string \<Rightarrow> string" where
  "text_head report_type = ''Trinity '' @ report_type @ ''\<newline>'' @ replicate 50 CHR ''='' @ ''\<newline>''"

text \<open>Lines 113-132: the HTML rendering; the loop appends one paragraph per item.\<close>

definition report_html :: "datetime \<Rightarrow> report_data \<Rightarrow> string \<Rightarrow> string" where
  "report_html now report_data report_type =
     (case report_data of
        RDict items \<Rightarrow> foldl (\<lambda>html_body kv. html_body @ html_entry kv) (html_head now report_type) items
      | ROther v \<Rightarrow> html_head now report_type @ ''<pre>'' @ py_str v @ ''</pre>'')
     @ html_foot"

text \<open>Lines 135-140: the plain-text rendering; the loop appends one line per item.\<close>

definition report_text :: "report_data \<Rightarrow> string \<Rightarrow> string" where
  "report_text report_data report_type =
     (case report_data of
        RDict items \<Rightarrow> foldl (\<lambda>text_body kv. text_body @ text_entry kv) (text_head report_type) items
      | ROther v \<Rightarrow> text_head report_type @ py_str v)"

text \<open>\<open>TrinityEmailSender.send_report\<close>; \<open>generated\<close> is the clock reading of line 117, \<open>now\<close>
  the later one inside \<open>send_email\<close>.\<close>

definition send_report ::
  "smtp \<Rightarrow> datetime \<Rightarrow> datetime \<Rightarrow> json_doc \<Rightarrow> report_data \<Rightarrow> string \<Rightarrow> bool io" where
  "send_report srv generated now config report_data report_type =
     send_email srv now config None (''Trinity '' @ report_type)
       (report_text report_data report_type) None
       (Some (report_html generated report_data report_type))"

section \<open>The non-interactive bootstrapper (quick_email_setup.py)\<close>

definition config_file :: string where
  "config_file = ''email_config.json''"

definition quick_config :: config where
  "quick_config =
     [(''smtp_server'', PStr ''smtp.gmail.com''),
      (''smtp_port'', PInt 587),
      (''sender_email'', PStr ''your_email@gmail.com''),
      (''sender_password'', PStr ''your_app_password_here''),
      (''default_recipient'', PStr ''your_email@gmail.com'')]"

text \<open>\<open>json.dumps(config, indent=2)\<close> of the fixed dictionary above.\<close>

definition quick_config_dump :: string where
  \<open>quick_config_dump =
     ''{\<newline>  "smtp_server": "smtp.gmail.com",\<newline>  "smtp_port": 587,\<newline>''
     @ ''  "sender_email": "your_email@gmail.com",\<newline>''
     @ ''  "sender_password": "your_app_password_here",\<newline>''
     @ ''  "default_recipient": "your_email@gmail.com"\<newline>}''\<close>

text \<open>\<open>existing_config.items()\<close>: only a dictionary has items.\<close>

definition dict_items :: "json_doc \<Rightarrow> error + config" where
  "dict_items doc = (case doc of JOther \<Rightarrow> Inl AttributeError | JObject c \<Rightarrow> Inr c)"

text \<open>Lines 34-37: the line printed for one item of the existing configuration.\<close>

definition display_line :: "string \<times> pyval \<Rightarrow> string" where
  "display_line kv =
     (if str_in ''password'' (lower (fst kv))
      then ''  '' @ fst kv @ '': '' @ replicate (length (py_str (snd kv))) CHR ''*''
      else ''  '' @ fst kv @ '': '' @ py_str (snd kv))"

definition quick_banner :: "string list" where
  "quick_banner =
     [emoji_rocket @ '' Trinity Quick Email Setup'',
      replicate 40 CHR ''='',
      ''Creating default Gmail configuration...'',
      ''You can customize this later by editing email_config.json'']"

definition quick_exists_notice :: "string list" where
  "quick_exists_notice =
     [emoji_warning @ ''  Configuration file '' @ config_file @ '' already exists!'',
      ''Current configuration:'']"

definition quick_next_steps :: "string list" where
  "quick_next_steps =
     [''\<newline>'' @ emoji_check @ '' Configuration template saved to '' @ config_file,
      emoji_folder @ '' File permissions set to secure (600)'',
      ''\<newline>'' @ emoji_wrench @ '' Next Steps:'',
      ''1. Edit email_config.json and replace placeholders with your actual email settings'',
      ''2. For Gmail users:'',
      ''   - Use your Gmail address for sender_email'',
      ''   - Generate an App Password at: https://myaccount.google.com/apppasswords'',
      ''   - Use the App Password (not your regular password) for sender_password'',
      ''3. Run: python3 send_email.py --test'',
      ''\<newline>'' @ emoji_memo @ '' Configuration format:'',
      quick_config_dump]"

text \<open>Lines 28-38: the configuration file exists; it is read, shown and returned.\<close>

definition show_existing :: "config io" where
  "show_existing =
     io_then (print_all quick_exists_notice)
       (io_bind (json_load config_file) (\<lambda>existing_config.
        io_bind (io_lift (dict_items existing_config)) (\<lambda>kvs.
        io_then (print_all (map display_line kvs)) (io_return kvs))))"

text \<open>Lines 40-60: the template is saved with mode \<open>0o600\<close>.\<close>

definition save_template :: "config io" where
  "save_template =
     io_then (json_dump config_file quick_config)
       (io_then (chmod config_file 384)
         (io_then (print_all quick_next_steps) (io_return quick_config)))"

text \<open>\<open>create_email_config\<close>\<close>

definition create_email_config :: "config io" where
  "create_email_config =
     io_then (print_all quick_banner)
       (\<lambda>w. if path_exists w config_file then show_existing w else save_template w)"

section \<open>The interactive bootstrapper (setup_email.py)\<close>

text \<open>Line 42: \<open>int(input(...).strip() or "587")\<close>\<close>

definition custom_port :: "string \<Rightarrow> error + int" where
  "custom_port answer = py_int (if strip answer = [] then ''587'' else strip answer)"

definition setup_banner :: "string list" where
  "setup_banner =
     [emoji_rocket @ '' Trinity Email Configuration Setup'',
      replicate 40 CHR ''='',
      ''\<newline>Select your email provider:'',
      ''1. Gmail'',
      ''2. Outlook/Hotmail'',
      ''3. Yahoo'',
      ''4. Custom SMTP'']"

text \<open>Lines 18-42: the provider choice gives the first two entries of the configuration.\<close>

definition choose_provider :: "config io" where
  "choose_provider =
     io_bind (py_input ''\<newline>Enter choice (1-4): '') (\<lambda>answer.
       if strip answer = ''1'' then
         io_then
           (print_all
              [''\<newline>'' @ emoji_email @ '' Gmail selected'',
               ''Note: You'' @ [CHR 0x27] @ ''ll need to use an App Password, not your regular password'',
               ''Generate one at: https://myaccount.google.com/apppasswords''])
           (io_return [(''smtp_server'', PStr ''smtp.gmail.com''), (''smtp_port'', PInt 587)])
       else if strip answer = ''2'' then
         io_then (py_print (''\<newline>'' @ emoji_email @ '' Outlook selected''))
           (io_return
              [(''smtp_server'', PStr ''smtp-mail.outlook.com''), (''smtp_port'', PInt 587)])
       else if strip answer = ''3'' then
         io_then (py_print (''\<newline>'' @ emoji_email @ '' Yahoo selected''))
           (io_return
              [(''smtp_server'', PStr ''smtp.mail.yahoo.com''), (''smtp_port'', PInt 587)])
       else
         io_bind (py_input ''SMTP Server: '') (\<lambda>host.
         io_bind (py_input ''SMTP Port (usually 587): '') (\<lambda>port.
         io_bind (io_lift (custom_port port)) (\<lambda>n.
         io_return [(''smtp_server'', PStr (strip host)), (''smtp_port'', PInt n)]))))"

text \<open>Lines 44-51: the credentials and the default recipient complete the configuration.\<close>

definition collect_credentials :: "config \<Rightarrow> config io" where
  "collect_credentials provider =
     io_then (py_print (''\<newline>'' @ emoji_lock @ '' Enter your email credentials:''))
       (io_bind (py_input ''Your email address: '') (\<lambda>address.
        io_bind (getpass ''Your password (or app password): '') (\<lambda>password.
        io_bind (py_input (''Default recipient ['' @ strip address @ '']: '')) (\<lambda>default_recipient.
        io_return
          (provider
           @ [(''sender_email'', PStr (strip address)),
              (''sender_password'', PStr password),
              (''default_recipient'',
               PStr (if strip default_recipient = [] then strip address
                     else strip default_recipient))])))))"

text \<open>Lines 53-62: the configuration is saved with mode \<open>0o600\<close>.\<close>

definition save_config :: "config \<Rightarrow> unit io" where
  "save_config config =
     io_then (json_dump config_file config)
       (io_then (chmod config_file 384)
         (print_all
            [''\<newline>'' @ emoji_check @ '' Configuration saved to '' @ config_file,
             emoji_folder @ '' File permissions set to secure (600)'']))"

definition test_body :: string where
  "test_body =
     ''Congratulations! Your Trinity email configuration is working perfectly.''
     @ ''\<newline>\<newline>You can now use Trinity to send emails, notifications, and reports.''"

text \<open>Lines 64-77: the optional test message through a fresh sender.\<close>

definition offer_test :: "smtp \<Rightarrow> datetime \<Rightarrow> unit io" where
  "offer_test srv now =
     io_bind (py_input ''\<newline>Would you like to send a test email? (y/n): '') (\<lambda>answer.
       if lower (strip answer) = ''y'' then
         io_then (py_print (''\<newline>'' @ emoji_outbox @ '' Sending test email...''))
           (io_bind (load_config config_file) (\<lambda>config.
            io_bind
              (send_email srv now config None (emoji_party @ '' Trinity Email Test'') test_body
                 None None)
              (\<lambda>success.
                 if success then py_print (emoji_confetti @ '' Test email sent successfully!'')
                 else py_print (emoji_cross @ '' Test failed. Please check your configuration.''))))
       else io_return ())"

text \<open>\<open>setup_email_config\<close>\<close>

definition setup_email_config :: "smtp \<Rightarrow> datetime \<Rightarrow> unit io" where
  "setup_email_config srv now =
     io_then (print_all setup_banner)
       (io_bind choose_provider (\<lambda>provider.
        io_bind (collect_credentials provider) (\<lambda>config.
        io_then (save_config config) (offer_test srv now))))"

section \<open>Sample surroundings\<close>

text \<open>A relay that accepts every step, and one that cannot be reached.\<close>

definition relay_ok :: smtp where
  "relay_ok =
     \<lparr>ssl_context = None, do_connect = (\<lambda>host port. None), do_starttls = None,
      do_login = (\<lambda>user pw. None), do_sendmail = (\<lambda>sender rcpt m. None), do_quit = None\<rparr>"


text \<open>A process with umask \<open>0o022\<close>, no files and nothing typed.\<close>

definition bare_world :: world where
  "bare_world = \<lparr>files = Map.empty, umask = 18, stdin = [], stdout = [], wire = []\<rparr>"

definition noon :: datetime where
  "noon = \<lparr>year = 2024, month = 3, day = 9, hour = 12, minute = 0, second = 0\<rparr>"

text \<open>The messages handed to \<open>sendmail\<close> among some calls, and the calls a run added.\<close>

fun submitted :: "smtp_call list \<Rightarrow> message list" where
  "submitted [] = []"
| "submitted (SendMail sender rcpt m # cs) = m # submitted cs"
| "submitted (c # cs) = submitted cs"

definition new_calls :: "world \<Rightarrow> world \<Rightarrow> smtp_call list" where
  "new_calls w w' = drop (length (wire w)) (wire w')"

text \<open>The plain-text payloads of a message's parts, and its binary parts.\<close>

fun plain_texts :: "part list \<Rightarrow> string list" where
  "plain_texts [] = []"
| "plain_texts (MIMEText payload st # ps) =
     (if st = ''plain'' then payload # plain_texts ps else plain_texts ps)"
| "plain_texts (MIMEBase mt st payload disp # ps) = plain_texts ps"

fun is_binary :: "part \<Rightarrow> bool" where
  "is_binary (MIMEText payload st) = False"
| "is_binary (MIMEBase mt st payload disp) = True"

text \<open>The permission bits of a file, and the modes that give group and others nothing
  (\<open>mode & 0o077 == 0\<close>).\<close>

definition mode_of :: "world \<Rightarrow> string \<Rightarrow> int option" where
  "mode_of w p = (case files w p of Some (File d md) \<Rightarrow> Some md | Some Dir \<Rightarrow> None | None \<Rightarrow> None)"

definition owner_only :: "int \<Rightarrow> bool" where
  "owner_only md = (and md 63 = 0)"

section \<open>Facts about the sender\<close>

lemmas io_defs = io_bind_def io_then_def io_return_def io_raise_def io_lift_def py_print_def
  transmit_def

lemma attachment_parts_world: "attachment_parts att w = (r, w') \<Longrightarrow> w' = w"
  by (auto simp: attachment_parts_def read_file_def io_defs
      split: option.splits if_splits node.splits)

lemma build_message_world:
  "build_message now config to_email subject body att html w = (r, w') \<Longrightarrow> w' = w"
  by (auto simp: build_message_def io_defs split: sum.splits prod.splits
      dest: attachment_parts_world)

lemma build_message_Inr:
  assumes "build_message now config to_email subject body att html w = (Inr (rcpt, m), w')"
  shows "recipient config to_email = Inr rcpt"
    and "hdr_to m = rcpt"
    and "subscript config ''sender_email'' = Inr (hdr_from m)"
    and "hdr_subject m = subject"
    and "\<exists>ps. attachment_parts att w = (Inr ps, w)
           \<and> parts m = MIMEText (body_with_timestamp now body) ''plain'' # html_parts html @ ps"
  using assms
  by (auto simp: build_message_def io_defs split: sum.splits prod.splits
      dest: attachment_parts_world)

lemma smtp_steps_submitted:
  "submitted (snd (smtp_steps srv c rcpt m)) = [] \<or> submitted (snd (smtp_steps srv c rcpt m)) = [m]"
  by (simp add: smtp_steps_def split: option.splits)

lemma submitted_append: "submitted (xs @ ys) = submitted xs @ submitted ys"
  by (induction xs rule: submitted.induct) simp_all

lemma smtp_session_submitted:
  "submitted (snd (smtp_session srv c rcpt m)) = []
   \<or> submitted (snd (smtp_session srv c rcpt m)) = [m]"
  using smtp_steps_submitted [of srv c rcpt m]
  by (auto simp: smtp_session_def submitted_append split: option.splits)

lemma send_email_unfold:
  "send_email srv now config to_email subject body att html w =
     (case build_message now config to_email subject body att html w of
        (Inl e, w1) \<Rightarrow> (Inl e, w)
      | (Inr (rcpt, m), w1) \<Rightarrow>
          (case config of
             JOther \<Rightarrow> (Inl TypeError, w)
           | JObject c \<Rightarrow>
               (Inr (fst (smtp_session srv c rcpt m) = None),
                w\<lparr>wire := wire w @ snd (smtp_session srv c rcpt m),
                  stdout := stdout w @
                    [case fst (smtp_session srv c rcpt m) of
                       None \<Rightarrow> emoji_check @ '' Email sent successfully to '' @ py_str rcpt
                     | Some e \<Rightarrow> emoji_cross @ '' Error sending email: '' @ e]\<rparr>)))"
  by (auto simp: send_email_def io_defs split: sum.splits prod.splits json_doc.splits option.splits
      dest: build_message_world)


lemma send_email_submitted:
  assumes "m \<in> set (submitted (new_calls w (snd (send_email srv now config to_email subject body att html w))))"
  shows "\<exists>rcpt w1. build_message now config to_email subject body att html w = (Inr (rcpt, m), w1)"
proof (cases "build_message now config to_email subject body att html w")
  case (Pair r w1)
  show ?thesis
  proof (cases r)
    case (Inl e)
    with Pair assms show ?thesis
      by (simp add: send_email_unfold new_calls_def)
  next
    case (Inr rm)
    obtain rcpt m' where rm: "rm = (rcpt, m')" by (cases rm)
    show ?thesis
    proof (cases config)
      case JOther
      with Pair Inr rm assms show ?thesis
        by (simp add: send_email_unfold new_calls_def)
    next
      case (JObject c)
      with Pair Inr rm assms
      have "m \<in> set (submitted (snd (smtp_session srv c rcpt m')))"
        by (simp add: send_email_unfold new_calls_def)
      with smtp_session_submitted [of srv c rcpt m'] have "m = m'" by auto
      with Pair Inr rm show ?thesis by simp
    qed
  qed
qed

lemma plain_texts_html: "plain_texts (html_parts html @ ps) = plain_texts ps"
  by (simp add: html_parts_def split: option.splits)

lemma attachment_parts_plain: "attachment_parts att w = (Inr ps, w') \<Longrightarrow> plain_texts ps = []"
  by (auto simp: attachment_parts_def read_file_def io_defs
      split: option.splits if_splits node.splits)

section \<open>The timestamp suffix\<close>

text \<open>
  Claim C4. Whatever the arguments, the configuration, the relay and the files, every message
  that \<open>send_email\<close> hands to \<open>sendmail\<close> has exactly one plain-text part, and its payload is
  the body followed by the suffix \<open>"\n\nSent from Trinity at " + timestamp\<close>, which is never
  empty. No argument switches the suffix off, and the empty body is no exception.
\<close>

theorem send_email_timestamp_suffix:
  "(\<forall>m \<in> set (submitted (new_calls w
        (snd (send_email srv now config to_email subject body att html w)))).
      plain_texts (parts m) = [body @ ''\<newline>\<newline>Sent from Trinity at '' @ strftime now])
   \<and> ''\<newline>\<newline>Sent from Trinity at '' @ strftime now \<noteq> []"
proof -
  have "plain_texts (parts m) = [body @ ''\<newline>\<newline>Sent from Trinity at '' @ strftime now]"
    if "m \<in> set (submitted (new_calls w
        (snd (send_email srv now config to_email subject body att html w))))" for m
  proof -
    from send_email_submitted [OF that] obtain rcpt w1 where
      b: "build_message now config to_email subject body att html w = (Inr (rcpt, m), w1)"
      by blast
    from build_message_Inr(5) [OF b] obtain ps where
      ps: "attachment_parts att w = (Inr ps, w)"
      and pm: "parts m = MIMEText (body_with_timestamp now body) ''plain'' # html_parts html @ ps"
      by blast
    show ?thesis
      by (simp add: pm plain_texts_html attachment_parts_plain [OF ps] body_with_timestamp_def)
  qed
  then show ?thesis by simp
qed

theorem send_email_timestamp_suffix_witness:
  "submitted (new_calls bare_world
      (snd (send_email relay_ok noon (JObject default_config) None ''Hi'' [] None None bare_world)))
     = [\<lparr>subtype = ''alternative'', hdr_from = PStr ''your_email@gmail.com'',
         hdr_to = PStr ''your_email@gmail.com'', hdr_subject = ''Hi'',
         parts = [MIMEText ''\<newline>\<newline>Sent from Trinity at 2024-03-09 12:00:00'' ''plain'']\<rparr>]
   \<and> plain_texts [MIMEText ''\<newline>\<newline>Sent from Trinity at 2024-03-09 12:00:00'' ''plain'']
       = [[] @ ''\<newline>\<newline>Sent from Trinity at '' @ strftime noon]"
  using send_email_timestamp_suffix [of bare_world relay_ok noon "JObject default_config" None "''Hi''" "[]" None None]
  by code_simp

section \<open>Notifications\<close>

text \<open>
  Claim C8. For each of the priorities low, normal and high, \<open>send_notification\<close> is the call
  of \<open>send_email\<close> with no recipient, attachment or HTML body, with the message as the body
  and with that priority's fixed subject: the bell, e-mail or siren emoji followed by
  "Trinity Notification", "Trinity Alert" or "Trinity Important Alert".
\<close>

theorem send_notification_subject:
  "send_notification srv now config msg ''low''
     = send_email srv now config None (emoji_bell @ '' Trinity Notification'') msg None None
   \<and> send_notification srv now config msg ''normal''
     = send_email srv now config None (emoji_email @ '' Trinity Alert'') msg None None
   \<and> send_notification srv now config msg ''high''
     = send_email srv now config None (emoji_siren @ '' Trinity Important Alert'') msg None None"
  by (simp add: send_notification_def subjects_def)

theorem send_notification_subject_witness:
  "map hdr_subject (submitted (new_calls bare_world
      (snd (send_notification relay_ok noon (JObject default_config) ''Disk full'' ''high''
              bare_world))))
     = [emoji_siren @ '' Trinity Important Alert'']
   \<and> map (\<lambda>m. plain_texts (parts m)) (submitted (new_calls bare_world
      (snd (send_notification relay_ok noon (JObject default_config) ''Disk full'' ''high''
              bare_world))))
     = [[''Disk full\<newline>\<newline>Sent from Trinity at 2024-03-09 12:00:00'']]"
  unfolding send_notification_subject
      [of relay_ok noon "JObject default_config" "''Disk full''", THEN conjunct2, THEN conjunct2]
  by code_simp

section \<open>The default recipient\<close>

lemma recipient_falsy:
  "to_email = None \<or> to_email = Some [] \<Longrightarrow>
     recipient config to_email = dict_get config ''default_recipient''"
  by (auto simp: recipient_def)

text \<open>
  Claim C10. An empty recipient string is treated as an omitted one: \<open>send_email\<close> with
  \<open>""\<close> is the same computation as with \<open>None\<close>, and then every message submitted has as
  its \<open>To\<close> header, and every \<open>sendmail\<close> call as its recipient, what
  \<open>config.get("default_recipient")\<close> returns.
\<close>

theorem send_email_falsy_recipient:
  "send_email srv now config (Some []) subject body att html
     = send_email srv now config None subject body att html
   \<and> (\<forall>m \<in> set (submitted (new_calls w
          (snd (send_email srv now config None subject body att html w)))).
        dict_get config ''default_recipient'' = Inr (hdr_to m))
   \<and> (\<forall>c \<in> set (new_calls w (snd (send_email srv now config None subject body att html w))).
        \<forall>sender rcpt m. c = SendMail sender rcpt m \<longrightarrow>
          dict_get config ''default_recipient'' = Inr rcpt)"
proof -
  have eq: "send_email srv now config (Some []) subject body att html
     = send_email srv now config None subject body att html"
    by (simp add: send_email_def build_message_def recipient_def)
  have to: "dict_get config ''default_recipient'' = Inr (hdr_to m)"
    if "m \<in> set (submitted (new_calls w
          (snd (send_email srv now config None subject body att html w))))" for m
  proof -
    from send_email_submitted [OF that] obtain rcpt w1 where
      b: "build_message now config None subject body att html w = (Inr (rcpt, m), w1)"
      by blast
    from build_message_Inr(1,2) [OF b] show ?thesis
      by (simp add: recipient_def)
  qed
  have rc: "dict_get config ''default_recipient'' = Inr rcpt"
    if "SendMail sender rcpt m
          \<in> set (new_calls w (snd (send_email srv now config None subject body att html w)))"
    for sender rcpt m
  proof (cases "build_message now config None subject body att html w")
    case (Pair r w1)
    show ?thesis
    proof (cases r)
      case (Inl e)
      with Pair that show ?thesis by (simp add: send_email_unfold new_calls_def)
    next
      case (Inr rm)
      obtain rcpt' m' where rm: "rm = (rcpt', m')" by (cases rm)
      from Pair Inr rm have b: "build_message now config None subject body att html w
          = (Inr (rcpt', m'), w1)" by simp
      show ?thesis
      proof (cases config)
        case JOther
        with Pair Inr rm that show ?thesis by (simp add: send_email_unfold new_calls_def)
      next
        case (JObject c)
        with Pair Inr rm that
        have "SendMail sender rcpt m \<in> set (snd (smtp_session srv c rcpt' m'))"
          by (simp add: send_email_unfold new_calls_def)
        then have "rcpt = rcpt'"
          by (auto simp: smtp_session_def smtp_steps_def split: option.splits)
        with build_message_Inr(1) [OF b] show ?thesis by (simp add: recipient_def)
      qed
    qed
  qed
  from eq to rc show ?thesis by blast
qed

theorem send_email_falsy_recipient_witness:
  "new_calls bare_world
      (snd (send_email relay_ok noon (JObject default_config) (Some []) ''Hi'' ''Hello'' None None
              bare_world))
     = [Connect (PStr ''smtp.gmail.com'') (PInt 587), StartTLS,
        Login (PStr ''your_email@gmail.com'') (PStr ''your_app_password''),
        SendMail (PStr ''your_email@gmail.com'') (PStr ''your_email@gmail.com'')
          \<lparr>subtype = ''alternative'', hdr_from = PStr ''your_email@gmail.com'',
           hdr_to = PStr ''your_email@gmail.com'', hdr_subject = ''Hi'',
           parts = [MIMEText ''Hello\<newline>\<newline>Sent from Trinity at 2024-03-09 12:00:00'' ''plain'']\<rparr>,
        Quit]
   \<and> dict_get (JObject default_config) ''default_recipient'' = Inr (PStr ''your_email@gmail.com'')"
  unfolding send_email_falsy_recipient
      [of relay_ok noon "JObject default_config" "''Hi''" "''Hello''" None None bare_world,
       THEN conjunct1]
  by code_simp

section \<open>Missing attachments\<close>

lemma attachment_parts_missing:
  "files w p = None \<Longrightarrow> attachment_parts (Some p) w = attachment_parts None w"
  by (simp add: attachment_parts_def path_exists_def)

lemma attachment_parts_None: "attachment_parts None w = (Inr [], w)"
  by (simp add: attachment_parts_def)

text \<open>
  Claim C7. When the attachment path names nothing on the file system, \<open>send_email\<close> does
  exactly what it does without an attachment argument (same result, same output, same SMTP
  calls), and no message it submits has a binary part.
\<close>

theorem send_email_missing_attachment:
  assumes "files w p = None"
  shows "send_email srv now config to_email subject body (Some p) html w
           = send_email srv now config to_email subject body None html w
    \<and> (\<forall>m \<in> set (submitted (new_calls w
            (snd (send_email srv now config to_email subject body (Some p) html w)))).
          filter is_binary (parts m) = [])"
proof -
  have b: "build_message now config to_email subject body (Some p) html w
             = build_message now config to_email subject body None html w"
    by (auto simp: build_message_def io_defs attachment_parts_missing [OF assms]
        split: sum.splits)
  have eq: "send_email srv now config to_email subject body (Some p) html w
           = send_email srv now config to_email subject body None html w"
    by (simp add: send_email_unfold b)
  have "filter is_binary (parts m) = []"
    if "m \<in> set (submitted (new_calls w
            (snd (send_email srv now config to_email subject body None html w))))" for m
  proof -
    from send_email_submitted [OF that] obtain rcpt w1 where
      bm: "build_message now config to_email subject body None html w = (Inr (rcpt, m), w1)"
      by blast
    from build_message_Inr(5) [OF bm] show ?thesis
      by (auto simp: attachment_parts_None html_parts_def split: option.splits)
  qed
  with eq show ?thesis by simp
qed

theorem send_email_missing_attachment_witness:
  "files bare_world ''report.pdf'' = None
   \<and> fst (send_email relay_ok noon (JObject default_config) None ''Hi'' ''Hello''
          (Some ''report.pdf'') None bare_world) = Inr True
   \<and> map parts (submitted (new_calls bare_world
        (snd (send_email relay_ok noon (JObject default_config) None ''Hi'' ''Hello''
               (Some ''report.pdf'') None bare_world))))
     = [[MIMEText ''Hello\<newline>\<newline>Sent from Trinity at 2024-03-09 12:00:00'' ''plain'']]"
proof -
  have h: "files bare_world ''report.pdf'' = None"
    by (simp add: bare_world_def)
  show ?thesis
    unfolding send_email_missing_attachment [OF h, THEN conjunct1]
    by code_simp
qed

section \<open>Reports\<close>

lemma foldl_append_concat: "foldl (\<lambda>acc x. acc @ f x) init xs = init @ concat (map f xs)"
  by (induction xs arbitrary: init) simp_all

text \<open>
  Claim C9. For a dictionary, \<open>send_report\<close> calls \<open>send_email\<close> with a plain-text body that
  is the heading followed by one line \<open>key: value\<close> per item, and an HTML body that has one
  \<open><p>\<close> paragraph per item between the fixed head and foot; both run through the items in
  the dictionary's iteration order. For any other value, its \<open>str()\<close> follows the heading in
  the text and stands in one \<open><pre>\<close> element in the HTML.
\<close>

theorem send_report_renderings:
  "send_report srv generated now config (RDict items) report_type
     = send_email srv now config None (''Trinity '' @ report_type)
         (text_head report_type
          @ concat (map (\<lambda>(k, v). py_str k @ '': '' @ py_str v @ ''\<newline>'') items))
         None
         (Some (html_head generated report_type
                @ concat (map (\<lambda>(k, v). ''<p><strong>'' @ py_str k @ '':</strong> '' @ py_str v
                                          @ ''</p>'') items)
                @ html_foot))
   \<and> send_report srv generated now config (ROther v) report_type
     = send_email srv now config None (''Trinity '' @ report_type)
         (text_head report_type @ py_str v)
         None
         (Some (html_head generated report_type @ ''<pre>'' @ py_str v @ ''</pre>'' @ html_foot))"
proof -
  have t: "text_entry = (\<lambda>(k, v). py_str k @ '': '' @ py_str v @ ''\<newline>'')"
    by (auto simp: text_entry_def fun_eq_iff)
  have h: "html_entry = (\<lambda>(k, v). ''<p><strong>'' @ py_str k @ '':</strong> '' @ py_str v @ ''</p>'')"
    by (auto simp: html_entry_def fun_eq_iff)
  show ?thesis
    by (simp add: send_report_def report_text_def report_html_def foldl_append_concat t h)
qed

theorem send_report_renderings_witness:
  "map parts (submitted (new_calls bare_world
      (snd (send_report relay_ok noon noon (JObject default_config)
              (RDict [(PStr ''cpu'', PStr ''80%''), (PStr ''mem'', PStr ''40%'')])
              ''System Report'' bare_world))))
     = [[MIMEText
           (''Trinity System Report\<newline>'' @ replicate 50 CHR ''='' @ ''\<newline>''
            @ ''cpu: 80%\<newline>mem: 40%\<newline>''
            @ ''\<newline>\<newline>Sent from Trinity at 2024-03-09 12:00:00'')
           ''plain'',
         MIMEText
           (html_head noon ''System Report''
            @ ''<p><strong>cpu:</strong> 80%</p><p><strong>mem:</strong> 40%</p>''
            @ html_foot)
           ''html'']]"
  unfolding send_report_renderings
      [of relay_ok noon noon "JObject default_config" _ "''System Report''", THEN conjunct1]
  by code_simp

section \<open>Which failures the sender catches\<close>





section \<open>Facts about the bootstrappers\<close>

lemma print_all_eq: "print_all ss w = (Inr (), w\<lparr>stdout := stdout w @ ss\<rparr>)"
  by (induction ss arbitrary: w) (simp_all add: io_defs)

lemma create_email_config_unfold:
  "create_email_config w =
     (if path_exists w config_file then show_existing (w\<lparr>stdout := stdout w @ quick_banner\<rparr>)
      else save_template (w\<lparr>stdout := stdout w @ quick_banner\<rparr>))"
  by (simp add: create_email_config_def io_defs print_all_eq path_exists_def)

lemma show_existing_files: "files (snd (show_existing w)) = files w"
  by (simp add: show_existing_def json_load_def read_file_def dict_items_def io_defs print_all_eq
      split: option.splits node.splits file_data.splits json_doc.splits)

lemma show_existing_Json:
  "files w config_file = Some (File (Json (JObject cfg)) md) \<Longrightarrow>
     show_existing w
       = (Inr cfg, w\<lparr>stdout := stdout w @ quick_exists_notice @ map display_line cfg\<rparr>)"
  by (simp add: show_existing_def json_load_def read_file_def dict_items_def io_defs print_all_eq)

lemma save_template_eq:
  "files w config_file = None \<Longrightarrow>
     save_template w
       = (Inr quick_config,
          w\<lparr>files := (files w)(config_file \<mapsto> File (Json (JObject quick_config)) 384),
            stdout := stdout w @ quick_next_steps\<rparr>)"
  by (simp add: save_template_def json_dump_def chmod_def io_defs print_all_eq)

text \<open>
  Claim C6. \<open>create_email_config\<close> leaves an existing configuration file as it is, whatever
  the file holds (also when reading it fails), and a second run leaves the files exactly as
  the first run left them.
\<close>

theorem create_email_config_idempotent:
  "(path_exists w config_file \<longrightarrow> files (snd (create_email_config w)) = files w)
   \<and> files (snd (create_email_config (snd (create_email_config w))))
       = files (snd (create_email_config w))"
proof -
  have keep: "files (snd (create_email_config v)) = files v" if "path_exists v config_file" for v
    using that by (simp add: create_email_config_unfold show_existing_files)
  have "path_exists (snd (create_email_config w)) config_file"
  proof (cases "path_exists w config_file")
    case True
    with keep [OF True] show ?thesis by (simp add: path_exists_def)
  next
    case False
    then have "files w config_file = None" by (simp add: path_exists_def)
    then show ?thesis
      by (simp add: create_email_config_unfold path_exists_def save_template_eq)
  qed
  from keep [OF this] keep show ?thesis by simp
qed

theorem create_email_config_idempotent_witness:
  "path_exists (bare_world\<lparr>files := [config_file \<mapsto> File (Raw ''{'') 420]\<rparr>) config_file
   \<and> fst (create_email_config (bare_world\<lparr>files := [config_file \<mapsto> File (Raw ''{'') 420]\<rparr>))
       = Inl JSONDecodeError
   \<and> files (snd (create_email_config
                   (bare_world\<lparr>files := [config_file \<mapsto> File (Raw ''{'') 420]\<rparr>))) config_file
       = Some (File (Raw ''{'') 420)
   \<and> files (snd (create_email_config (snd (create_email_config bare_world)))) config_file
       = Some (File (Json (JObject quick_config)) 384)"
proof -
  have h: "path_exists (bare_world\<lparr>files := [config_file \<mapsto> File (Raw ''{'') 420]\<rparr>) config_file"
    by (simp add: path_exists_def)
  have r: "fst (create_email_config (bare_world\<lparr>files := [config_file \<mapsto> File (Raw ''{'') 420]\<rparr>))
       = Inl JSONDecodeError"
    by code_simp
  have once: "files (snd (create_email_config bare_world)) config_file
       = Some (File (Json (JObject quick_config)) 384)"
    by code_simp
  from create_email_config_idempotent
      [of "bare_world\<lparr>files := [config_file \<mapsto> File (Raw ''{'') 420]\<rparr>"] h
  have "files (snd (create_email_config
                   (bare_world\<lparr>files := [config_file \<mapsto> File (Raw ''{'') 420]\<rparr>)))
          = [config_file \<mapsto> File (Raw ''{'') 420]"
    by simp
  moreover from create_email_config_idempotent [of bare_world] once
  have "files (snd (create_email_config (snd (create_email_config bare_world)))) config_file
       = Some (File (Json (JObject quick_config)) 384)"
    by simp
  ultimately show ?thesis using h r by simp
qed

section \<open>Masking of secrets\<close>

lemma str_in_set: "str_in sub s \<Longrightarrow> set sub \<subseteq> set s"
proof (induction s)
  case Nil
  then show ?case by simp
next
  case (Cons c cs)
  from Cons.prems have "take (length sub) (c # cs) = sub \<or> str_in sub cs" by simp
  then show ?case
  proof
    assume "take (length sub) (c # cs) = sub"
    then have "set sub = set (take (length sub) (c # cs))" by simp
    also have "\<dots> \<subseteq> set (c # cs)" by (rule set_take_subset)
    finally show ?thesis .
  next
    assume "str_in sub cs"
    with Cons.IH show ?thesis by auto
  qed
qed

text \<open>
  Claim C5, as the code has it. When the configuration file holds a JSON object, the
  bootstrapper returns it and prints, after its banner and notice, one line per entry in
  order. For an entry whose key contains "password" in any letter case the line is the key
  followed by as many asterisks as \<open>str(value)\<close> has characters, and that run of asterisks
  does not contain the value when the value has a character other than the asterisk.
\<close>

theorem create_email_config_masks_passwords:
  assumes "files w config_file = Some (File (Json (JObject cfg)) md)"
  shows "fst (create_email_config w) = Inr cfg
    \<and> stdout (snd (create_email_config w))
        = stdout w @ quick_banner @ quick_exists_notice @ map display_line cfg
    \<and> (\<forall>(k, v) \<in> set cfg. str_in ''password'' (lower k) \<longrightarrow>
          display_line (k, v) = ''  '' @ k @ '': '' @ replicate (length (py_str v)) CHR ''*''
          \<and> ((\<exists>c \<in> set (py_str v). c \<noteq> CHR ''*'') \<longrightarrow>
               \<not> str_in (py_str v) (replicate (length (py_str v)) CHR ''*'')))"
proof -
  have run: "create_email_config w
      = (Inr cfg, w\<lparr>stdout := stdout w @ quick_banner @ quick_exists_notice
                                  @ map display_line cfg\<rparr>)"
    using assms
    by (simp add: create_email_config_unfold path_exists_def show_existing_Json)
  have mask: "\<not> str_in s (replicate n CHR ''*'')" if "\<exists>c \<in> set s. c \<noteq> CHR ''*''" for s n
  proof
    assume "str_in s (replicate n CHR ''*'')"
    from str_in_set [OF this] have "set s \<subseteq> {CHR ''*''}" by auto
    with that show False by auto
  qed
  from run mask show ?thesis by (auto simp: display_line_def)
qed

theorem create_email_config_masks_passwords_witness:
  "fst (create_email_config (bare_world\<lparr>files := [config_file \<mapsto>
          File (Json (JObject [(''sender_email'', PStr ''bob@example.com''),
                               (''Sender_PASSWORD'', PStr ''hunter2'')])) 384]\<rparr>))
     = Inr [(''sender_email'', PStr ''bob@example.com''), (''Sender_PASSWORD'', PStr ''hunter2'')]
   \<and> drop 6 (stdout (snd (create_email_config (bare_world\<lparr>files := [config_file \<mapsto>
          File (Json (JObject [(''sender_email'', PStr ''bob@example.com''),
                               (''Sender_PASSWORD'', PStr ''hunter2'')])) 384]\<rparr>))))
     = [''  sender_email: bob@example.com'', ''  Sender_PASSWORD: *******'']
   \<and> \<not> str_in ''hunter2'' ''*******''"
proof -
  have f: "files (bare_world\<lparr>files := [config_file \<mapsto>
          File (Json (JObject [(''sender_email'', PStr ''bob@example.com''),
                               (''Sender_PASSWORD'', PStr ''hunter2'')])) 384]\<rparr>) config_file
     = Some (File (Json (JObject [(''sender_email'', PStr ''bob@example.com''),
                               (''Sender_PASSWORD'', PStr ''hunter2'')])) 384)"
    by simp
  have d: "map display_line [(''sender_email'', PStr ''bob@example.com''),
                             (''Sender_PASSWORD'', PStr ''hunter2'')]
     = [''  sender_email: bob@example.com'', ''  Sender_PASSWORD: *******'']"
    by code_simp
  have l: "length (stdout bare_world @ quick_banner @ quick_exists_notice) = 6"
    by (simp add: bare_world_def quick_banner_def quick_exists_notice_def)
  have n: "\<not> str_in ''hunter2'' ''*******''"
    by code_simp
  from create_email_config_masks_passwords [OF f] d l n show ?thesis
    by simp
qed

text \<open>
  The claim as stated fails where it says that the secret never appears in the output: only
  the values of keys containing "password" are masked, so a secret that is also the value of
  another key is printed there.
\<close>

theorem create_email_config_shows_secret:
  "map_of [(''smtp_server'', PStr ''smtp.example.com''), (''smtp_port'', PInt 587),
           (''sender_email'', PStr ''bob@example.com''),
           (''sender_password'', PStr ''bob@example.com''),
           (''default_recipient'', PStr ''ops@example.com'')] ''sender_password''
     = Some (PStr ''bob@example.com'')
   \<and> stdout (snd (create_email_config (bare_world\<lparr>files := [config_file \<mapsto>
          File (Json (JObject
            [(''smtp_server'', PStr ''smtp.example.com''), (''smtp_port'', PInt 587),
             (''sender_email'', PStr ''bob@example.com''),
             (''sender_password'', PStr ''bob@example.com''),
             (''default_recipient'', PStr ''ops@example.com'')])) 384]\<rparr>))) ! 8
     = ''  sender_email: bob@example.com''
   \<and> str_in ''bob@example.com'' ''  sender_email: bob@example.com''"
  by code_simp

section \<open>Permissions of the configuration file\<close>

lemma owner_only_600: "owner_only 384"
  by (simp add: owner_only_def)

lemma create_email_config_mode:
  "files w config_file = None \<Longrightarrow> mode_of (snd (create_email_config w)) config_file = Some 384"
  by (simp add: create_email_config_unfold path_exists_def save_template_eq mode_of_def)

lemma save_config_mode:
  "fst (save_config cfg w) = Inr () \<Longrightarrow> mode_of (snd (save_config cfg w)) config_file = Some 384"
  by (auto simp: save_config_def json_dump_def chmod_def io_defs print_all_eq mode_of_def
      split: option.splits node.splits)

lemma load_config_mode:
  "files w p = None \<Longrightarrow> mode_of (snd (load_config p w)) p = Some (and 438 (not (umask w)))"
  by (simp add: load_config_def path_exists_def json_dump_def io_defs mode_of_def)

lemma send_email_files:
  "files (snd (send_email srv now config to_email subject body att html w)) = files w"
  by (simp add: send_email_unfold split: prod.splits sum.splits json_doc.splits)

lemma py_input_files: "files (snd (py_input prompt w)) = files w"
  by (simp add: py_input_def split: list.splits)

lemma load_config_existing_files:
  "files w p \<noteq> None \<Longrightarrow> files (snd (load_config p w)) = files w"
  by (auto simp: load_config_def path_exists_def json_load_def read_file_def io_defs
      split: option.splits node.splits file_data.splits)

lemma io_bind_files:
  assumes "\<And>v. files (snd (m v)) = files v"
    and "\<And>x v. files v = files w \<Longrightarrow> files (snd (f x v)) = files v"
  shows "files (snd (io_bind m f w)) = files w"
proof (cases "m w")
  case (Pair r w1)
  from assms(1) [of w] Pair have w1: "files w1 = files w" by simp
  show ?thesis
  proof (cases r)
    case (Inl e)
    with Pair w1 show ?thesis by (simp add: io_bind_def)
  next
    case (Inr x)
    with Pair w1 assms(2) [OF w1, of x] show ?thesis by (simp add: io_bind_def)
  qed
qed

lemma offer_test_files:
  assumes "files w config_file \<noteq> None"
  shows "files (snd (offer_test srv now w)) = files w"
  unfolding offer_test_def
proof (rule io_bind_files)
  show "files (snd (py_input ''\<newline>Would you like to send a test email? (y/n): '' v)) = files v"
    for v by (rule py_input_files)
next
  fix x and v :: world
  assume v: "files v = files w"
  with assms have ex: "files v config_file \<noteq> None" by simp
  have ld: "files (snd (load_config config_file u)) = files u" if "files u = files v" for u
    using that ex by (simp add: load_config_existing_files)
  show "files (snd ((if lower (strip x) = ''y'' then
         io_then (py_print (''\<newline>'' @ emoji_outbox @ '' Sending test email...''))
           (io_bind (load_config config_file) (\<lambda>config.
            io_bind
              (send_email srv now config None (emoji_party @ '' Trinity Email Test'') test_body
                 None None)
              (\<lambda>success.
                 if success then py_print (emoji_confetti @ '' Test email sent successfully!'')
                 else py_print (emoji_cross @ '' Test failed. Please check your configuration.''))))
       else io_return ()) v)) = files v"
  proof (cases "lower (strip x) = ''y''")
    case False
    then show ?thesis by (simp add: io_return_def)
  next
    case True
    obtain r1 u1 where l: "load_config config_file (v\<lparr>stdout := stdout v
        @ [''\<newline>'' @ emoji_outbox @ '' Sending test email...'']\<rparr>) = (r1, u1)"
      by (cases "load_config config_file (v\<lparr>stdout := stdout v
        @ [''\<newline>'' @ emoji_outbox @ '' Sending test email...'']\<rparr>)")
    from ld [of "v\<lparr>stdout := stdout v
        @ [''\<newline>'' @ emoji_outbox @ '' Sending test email...'']\<rparr>"] l
    have u1: "files u1 = files v" by simp
    show ?thesis
    proof (cases r1)
      case (Inl e)
      with True l u1 show ?thesis by (simp add: io_defs)
    next
      case (Inr config)
      obtain r2 u2 where s: "send_email srv now config None (emoji_party @ '' Trinity Email Test'')
          test_body None None u1 = (r2, u2)"
        by (cases "send_email srv now config None (emoji_party @ '' Trinity Email Test'')
          test_body None None u1")
      from send_email_files [of srv now config None "emoji_party @ '' Trinity Email Test''"
          test_body None None u1] s
      have "files u2 = files u1" by simp
      with True l u1 Inr s show ?thesis
        by (cases r2) (simp_all add: io_defs)
    qed
  qed
qed

lemma save_config_result:
  "save_config cfg w = (Inr (), w') \<Longrightarrow> files w' config_file = Some (File (Json (JObject cfg)) 384)"
  by (auto simp: save_config_def json_dump_def chmod_def io_defs print_all_eq
      split: option.splits node.splits)

lemma setup_email_config_mode:
  assumes "fst (setup_email_config srv now w) = Inr ()"
  shows "mode_of (snd (setup_email_config srv now w)) config_file = Some 384"
proof -
  define w1 where "w1 = w\<lparr>stdout := stdout w @ setup_banner\<rparr>"
  obtain r2 w2 where c: "choose_provider w1 = (r2, w2)" by (cases "choose_provider w1")
  from assms c obtain provider where r2: "r2 = Inr provider"
    by (cases r2) (simp_all add: setup_email_config_def io_defs print_all_eq w1_def)
  obtain r3 w3 where cc: "collect_credentials provider w2 = (r3, w3)"
    by (cases "collect_credentials provider w2")
  from assms c r2 cc obtain config where r3: "r3 = Inr config"
    by (cases r3) (simp_all add: setup_email_config_def io_defs print_all_eq w1_def)
  obtain r4 w4 where sc: "save_config config w3 = (r4, w4)"
    by (cases "save_config config w3")
  from assms c r2 cc r3 sc have r4: "r4 = Inr ()"
    by (cases r4) (simp_all add: setup_email_config_def io_defs print_all_eq w1_def)
  from save_config_result sc r4
  have f4: "files w4 config_file = Some (File (Json (JObject config)) 384)" by simp
  then have "files w4 config_file \<noteq> None" by simp
  from offer_test_files [OF this, of srv now] f4
  have "files (snd (offer_test srv now w4)) config_file = Some (File (Json (JObject config)) 384)"
    by simp
  moreover have "setup_email_config srv now w = offer_test srv now w4"
    using c r2 cc r3 sc r4
    by (simp add: setup_email_config_def io_defs print_all_eq w1_def)
  ultimately show ?thesis by (simp add: mode_of_def)
qed

text \<open>
  Claim C2 does not hold of the sender. Both bootstrappers set mode \<open>0o600\<close> after writing the
  file (\<open>create_email_config_mode\<close> and \<open>setup_email_config_mode\<close> above);
  \<open>load_config\<close> writes its default file and leaves it with the mode the process umask
  gives (\<open>load_config_mode\<close>), \<open>0o644\<close> under the usual umask \<open>0o022\<close>.
\<close>

theorem load_config_leaves_default_mode:
  "mode_of (snd (load_config config_file bare_world)) config_file = Some 420
   \<and> \<not> owner_only 420"
  by (simp add: load_config_mode bare_world_def owner_only_def)

section \<open>The port of a custom SMTP server\<close>












end
